theory Spec2Isabelle
  imports Main
begin

section \<open>Python values and exceptions\<close>

text \<open>
  The transports of \<^verbatim>\<open>azure/core/pipeline/transport\<close> (\<^verbatim>\<open>requests_basic.py\<close>,
  \<^verbatim>\<open>requests_asyncio.py\<close>, \<^verbatim>\<open>requests_trio.py\<close>) are dynamically typed: the values that
  flow through keyword options and through the \<^verbatim>\<open>downloaded\<close> counter are modelled by one
  datatype of Python values.
\<close>

datatype pyval =
    PNone
  | PBool bool
  | PInt int
  | PStr string
  | PBytes string

text \<open>
  The exception classes the three modules name in their \<^verbatim>\<open>except\<close> clauses, the built-in
  classes the interpreter raises on the way, and their neighbours in the two libraries.
  The classes prefixed \<^verbatim>\<open>U3_\<close> are those of \<^verbatim>\<open>urllib3.exceptions\<close>; \<open>RequestsHTTPError\<close> is
  \<^verbatim>\<open>requests.exceptions.HTTPError\<close>; the remaining library classes are those of
  \<^verbatim>\<open>requests.exceptions\<close>.
\<close>

datatype exc_class =
    Exception
  | OSError
  | TypeError
  | AttributeError
  | RuntimeError
  | StopIteration
  | U3_HTTPError
  | U3_PoolError
  | U3_TimeoutError
  | U3_ConnectTimeoutError
  | NewConnectionError
  | ProtocolError
  | RequestException
  | RequestsHTTPError
  | ConnectionError
  | ProxyError
  | SSLError
  | Timeout
  | ConnectTimeout
  | ReadTimeout
  | ChunkedEncodingError
  | ContentDecodingError
  | StreamConsumedError
  | TooManyRedirects

text \<open>
  All proper ancestors of a class, as the class statements of \<^verbatim>\<open>requests.exceptions\<close> and
  \<^verbatim>\<open>urllib3.exceptions\<close> (third-party libraries the modules import) and of the Python
  built-ins declare them.
\<close>

fun superclasses :: "exc_class \<Rightarrow> exc_class list" where
  "superclasses Exception = []"
| "superclasses OSError = [Exception]"
| "superclasses TypeError = [Exception]"
| "superclasses AttributeError = [Exception]"
| "superclasses RuntimeError = [Exception]"
| "superclasses StopIteration = [Exception]"
| "superclasses U3_HTTPError = [Exception]"
| "superclasses U3_PoolError = [U3_HTTPError, Exception]"
| "superclasses U3_TimeoutError = [U3_HTTPError, Exception]"
| "superclasses U3_ConnectTimeoutError = [U3_TimeoutError, U3_HTTPError, Exception]"
| "superclasses NewConnectionError =
     [U3_ConnectTimeoutError, U3_TimeoutError, U3_PoolError, U3_HTTPError, Exception]"
| "superclasses ProtocolError = [U3_HTTPError, Exception]"
| "superclasses RequestException = [OSError, Exception]"
| "superclasses RequestsHTTPError = [RequestException, OSError, Exception]"
| "superclasses ConnectionError = [RequestException, OSError, Exception]"
| "superclasses ProxyError = [ConnectionError, RequestException, OSError, Exception]"
| "superclasses SSLError = [ConnectionError, RequestException, OSError, Exception]"
| "superclasses Timeout = [RequestException, OSError, Exception]"
| "superclasses ConnectTimeout =
     [ConnectionError, Timeout, RequestException, OSError, Exception]"
| "superclasses ReadTimeout = [Timeout, RequestException, OSError, Exception]"
| "superclasses ChunkedEncodingError = [RequestException, OSError, Exception]"
| "superclasses ContentDecodingError = [RequestException, U3_HTTPError, OSError, Exception]"
| "superclasses StreamConsumedError = [RequestException, TypeError, OSError, Exception]"
| "superclasses TooManyRedirects = [RequestException, OSError, Exception]"

text \<open>
  An exception object: its class and its \<^verbatim>\<open>args\<close> tuple. An argument is another exception
  (requests wraps the urllib3 error it caught) or some other value.
\<close>

datatype exc = Exc (exc_cls: exc_class) (exc_args: "pyarg list")
and pyarg = AExc exc | AVal pyval

definition isinstance :: "exc \<Rightarrow> exc_class \<Rightarrow> bool" where
  "isinstance e c \<longleftrightarrow> exc_cls e = c \<or> c \<in> set (superclasses (exc_cls e))"

text \<open>\<^verbatim>\<open>isinstance(err.args[0], C)\<close> for an argument that need not be an exception.\<close>

fun arg_isinstance :: "pyarg \<Rightarrow> exc_class \<Rightarrow> bool" where
  "arg_isinstance (AExc a) c = isinstance a c"
| "arg_isinstance (AVal v) c = False"

text \<open>
  What leaves a method as an exception: one of the two error kinds of
  \<^verbatim>\<open>azure.core.exceptions\<close>, built as \<^verbatim>\<open>ServiceRequestError(err, error=err)\<close> and so carrying
  the low-level error, or an exception no \<^verbatim>\<open>except\<close> clause caught.
\<close>

datatype raised =
    ServiceRequestError exc
  | ServiceResponseError exc
  | Uncaught exc

text \<open>
  The two errors the interpreter itself raises in these methods: an attribute looked up
  on \<^verbatim>\<open>None\<close>, and a call given the same keyword twice. Their message texts are
  shortened.
\<close>

definition attribute_error :: "string \<Rightarrow> raised" where
  "attribute_error attr =
     Uncaught (Exc AttributeError
       [AVal (PStr (''NoneType object has no attribute '' @ attr))])"

definition type_error :: "string \<Rightarrow> raised" where
  "type_error msg = Uncaught (Exc TypeError [AVal (PStr msg)])"

section \<open>Requests, responses, sessions\<close>

record request =
  http_method :: string
  url :: string
  req_headers :: "(string \<times> string) list"
  data :: pyval
  files :: pyval

text \<open>\<^verbatim>\<open>ConnectionConfiguration\<close>: the fields \<^verbatim>\<open>send\<close> reads.\<close>

record connection_configuration =
  verify :: pyval
  timeout :: pyval
  cert :: pyval
  data_block_size :: int

text \<open>
  \<^verbatim>\<open>Retry(total=False, redirect=False, raise_on_status=False)\<close> inside an
  \<^verbatim>\<open>HTTPAdapter(max_retries=...)\<close>.
\<close>

record adapter =
  max_retries_total :: bool
  max_retries_redirect :: bool
  max_retries_raise_on_status :: bool

text \<open>
  A \<^verbatim>\<open>requests.Session\<close> object: the two attributes \<^verbatim>\<open>_init_session\<close> sets and the
  number of times its \<^verbatim>\<open>close()\<close> ran.
\<close>

record session_obj =
  trust_env :: bool
  adapters :: "string \<rightharpoonup> adapter"
  close_calls :: nat

text \<open>
  The call \<^verbatim>\<open>self.session.request(...)\<close> as it reaches the library: the session it is
  made on, the two positional arguments, the seven keyword arguments the transport
  writes out, and the remaining keyword options passed through with \<^verbatim>\<open>**kwargs\<close>.
\<close>

record http_call =
  call_session :: nat
  call_method :: string
  call_url :: string
  call_headers :: "(string \<times> string) list"
  call_data :: pyval
  call_files :: pyval
  call_verify :: pyval
  call_timeout :: pyval
  call_cert :: pyval
  call_allow_redirects :: bool
  call_kwargs :: "string \<rightharpoonup> pyval"

text \<open>The object \<^verbatim>\<open>session.request\<close> returns (a \<^verbatim>\<open>requests.Response\<close>).\<close>

record raw_response =
  raw_status_code :: int
  raw_headers :: "(string \<times> string) list"
  raw_reason :: string

text \<open>
  The store: session objects by address, the next free address, and the calls issued to
  \<^verbatim>\<open>session.request\<close> so far, oldest first.
\<close>

record world =
  sessions :: "nat \<Rightarrow> session_obj"
  next_session :: nat
  calls :: "http_call list"

datatype response_class =
    RequestsTransportResponse
  | AsyncioRequestsTransportResponse
  | TrioRequestsTransportResponse

record response =
  resp_class :: response_class
  resp_request :: request
  internal_response :: raw_response
  block_size :: int
  status_code :: int
  headers :: "(string \<times> string) list"
  reason :: string
  content_type :: "string option"

text \<open>
  \<^verbatim>\<open>requests_response.headers\<close> is a case-insensitive dictionary: \<^verbatim>\<open>get\<close> compares keys
  with ASCII letters lowered.
\<close>

definition lower_char :: "char \<Rightarrow> char" where
  "lower_char c =
     (let n = (of_char c :: nat) in if 65 \<le> n \<and> n \<le> 90 then char_of (n + 32) else c)"

definition headers_get :: "(string \<times> string) list \<Rightarrow> string \<Rightarrow> string option" where
  "headers_get hs k = map_of (map (\<lambda>(a, b). (map lower_char a, b)) hs) (map lower_char k)"

text \<open>\<^verbatim>\<open>_RequestsTransportResponseBase.__init__\<close>, for each of the three response classes.\<close>

definition make_response ::
  "response_class \<Rightarrow> request \<Rightarrow> raw_response \<Rightarrow> int \<Rightarrow> response" where
  "make_response c req rr bs =
     \<lparr> resp_class = c,
       resp_request = req,
       internal_response = rr,
       block_size = bs,
       status_code = raw_status_code rr,
       headers = raw_headers rr,
       reason = raw_reason rr,
       content_type = headers_get (raw_headers rr) ''content-type'' \<rparr>"

section \<open>RequestsTransport\<close>

record transport =
  session :: "nat option"
  session_owner :: bool
  connection_config :: connection_configuration
  use_env_settings :: bool

text \<open>
  \<^verbatim>\<open>__init__\<close>: \<^verbatim>\<open>session\<close> defaults to \<^verbatim>\<open>None\<close>, \<^verbatim>\<open>session_owner\<close> and
  \<^verbatim>\<open>use_env_settings\<close> to \<^verbatim>\<open>True\<close>. An absent keyword is \<open>None\<close> here; the
  \<^verbatim>\<open>ConnectionConfiguration\<close> built from the keywords is passed in.
\<close>

definition transport_init ::
  "nat option \<Rightarrow> bool option \<Rightarrow> bool option \<Rightarrow> connection_configuration \<Rightarrow> transport" where
  "transport_init session_kw owner_kw env_kw cfg =
     \<lparr> session = session_kw,
       session_owner = (case owner_kw of None \<Rightarrow> True | Some b \<Rightarrow> b),
       connection_config = cfg,
       use_env_settings = (case env_kw of None \<Rightarrow> True | Some b \<Rightarrow> b) \<rparr>"

definition protocols :: "string list" where
  "protocols = [''http://'', ''https://'']"

definition disable_retries_adapter :: adapter where
  "disable_retries_adapter =
     \<lparr> max_retries_total = False, max_retries_redirect = False,
       max_retries_raise_on_status = False \<rparr>"

text \<open>\<^verbatim>\<open>session.mount(p, adapter)\<close> for each protocol, in order.\<close>

fun mount_all :: "string list \<Rightarrow> adapter \<Rightarrow> (string \<rightharpoonup> adapter) \<Rightarrow> (string \<rightharpoonup> adapter)" where
  "mount_all [] a m = m"
| "mount_all (p # ps) a m = mount_all ps a (m(p \<mapsto> a))"

definition init_session :: "transport \<Rightarrow> session_obj \<Rightarrow> session_obj" where
  "init_session t s =
     s\<lparr> trust_env := use_env_settings t,
        adapters := mount_all protocols disable_retries_adapter (adapters s) \<rparr>"

text \<open>
  \<^verbatim>\<open>requests.Session()\<close>: a fresh object at the next free address. Its own defaults for
  the two attributes are overwritten by \<^verbatim>\<open>_init_session\<close> before anything reads them.
\<close>

definition new_session :: "world \<Rightarrow> nat \<times> world" where
  "new_session w =
     (next_session w,
      w\<lparr> sessions := (sessions w)
            (next_session w := \<lparr> trust_env = True, adapters = Map.empty, close_calls = 0 \<rparr>),
         next_session := Suc (next_session w) \<rparr>)"

text \<open>\<^verbatim>\<open>open\<close>: \<^verbatim>\<open>if not self.session and self._session_owner\<close>.\<close>

definition open_transport :: "world \<times> transport \<Rightarrow> world \<times> transport" where
  "open_transport wt =
     (case wt of (w, t) \<Rightarrow>
        if session t = None \<and> session_owner t then
          (case new_session w of (a, w1) \<Rightarrow>
             (w1\<lparr> sessions := (sessions w1)(a := init_session t (sessions w1 a)) \<rparr>,
              t\<lparr> session := Some a \<rparr>))
        else (w, t))"

text \<open>
  \<^verbatim>\<open>close\<close>: under \<^verbatim>\<open>if self._session_owner\<close> the first statement is
  \<^verbatim>\<open>self.session.close()\<close>, which on \<^verbatim>\<open>None\<close> raises \<^verbatim>\<open>AttributeError\<close> before the two
  assignments run.
\<close>

definition close_transport :: "world \<times> transport \<Rightarrow> (raised + unit) \<times> world \<times> transport" where
  "close_transport wt =
     (case wt of (w, t) \<Rightarrow>
        if session_owner t then
          (case session t of
             None \<Rightarrow> (Inl (attribute_error ''close''), w, t)
           | Some a \<Rightarrow>
               (Inr (),
                w\<lparr> sessions := (sessions w)
                      (a := (sessions w a)\<lparr> close_calls := Suc (close_calls (sessions w a)) \<rparr>) \<rparr>,
                t\<lparr> session_owner := False, session := None \<rparr>))
        else (Inr (), w, t))"

section \<open>send\<close>

text \<open>\<^verbatim>\<open>kwargs.pop(k, default)\<close>: the value (or the default) and the dictionary without the key.\<close>

definition kw_pop ::
  "(string \<rightharpoonup> pyval) \<Rightarrow> string \<Rightarrow> pyval \<Rightarrow> pyval \<times> (string \<rightharpoonup> pyval)" where
  "kw_pop kw k d = ((case kw k of None \<Rightarrow> d | Some v \<Rightarrow> v), kw(k := None))"

text \<open>
  The keyword arguments the call to \<^verbatim>\<open>session.request\<close> writes out. A call
  \<^verbatim>\<open>f(k=v, **kwargs)\<close> in which \<^verbatim>\<open>kwargs\<close> has the key \<^verbatim>\<open>k\<close> too is rejected by the
  interpreter with \<^verbatim>\<open>TypeError\<close> before \<^verbatim>\<open>f\<close> runs.
\<close>

definition keyword_names :: "string list" where
  "keyword_names =
     [''headers'', ''data'', ''files'', ''verify'', ''timeout'', ''cert'', ''allow_redirects'']"

definition repeated_keyword :: "(string \<rightharpoonup> pyval) \<Rightarrow> bool" where
  "repeated_keyword kw = list_ex (\<lambda>k. kw k \<noteq> None) keyword_names"

text \<open>
  \<^verbatim>\<open>RequestsTransport.send\<close>. The parameter \<open>http\<close> is the library behind
  \<^verbatim>\<open>session.request\<close>: given the call it raises an exception or returns a raw response.
  Evaluation order is Python's: \<^verbatim>\<open>self.session.request\<close> is looked up first (on \<^verbatim>\<open>None\<close>
  this is an \<^verbatim>\<open>AttributeError\<close>, which none of the \<^verbatim>\<open>except\<close> clauses catches), then
  the arguments with the three \<^verbatim>\<open>pop\<close>s, then the call. The \<^verbatim>\<open>except\<close> clauses are tried
  in the order written.
\<close>

definition send ::
  "(http_call \<Rightarrow> exc + raw_response) \<Rightarrow> world \<times> transport \<Rightarrow> request \<Rightarrow>
   (string \<rightharpoonup> pyval) \<Rightarrow> (raised + response) \<times> world \<times> transport" where
  "send http wt req kwargs =
     (case open_transport wt of (w, t) \<Rightarrow>
        (case session t of
           None \<Rightarrow> (Inl (attribute_error ''request''), w, t)
         | Some a \<Rightarrow>
             (case kw_pop kwargs ''connection_verify'' (verify (connection_config t)) of
                (v, kw1) \<Rightarrow>
             (case kw_pop kw1 ''connection_timeout'' (timeout (connection_config t)) of
                (tm, kw2) \<Rightarrow>
             (case kw_pop kw2 ''connection_cert'' (cert (connection_config t)) of
                (c, kw3) \<Rightarrow>
             if repeated_keyword kw3 then (Inl (type_error ''got multiple values for keyword argument''), w, t)
             else
               (let call = \<lparr> call_session = a,
                              call_method = http_method req,
                              call_url = url req,
                              call_headers = req_headers req,
                              call_data = data req,
                              call_files = files req,
                              call_verify = v,
                              call_timeout = tm,
                              call_cert = c,
                              call_allow_redirects = False,
                              call_kwargs = kw3 \<rparr>;
                    w' = w\<lparr> calls := calls w @ [call] \<rparr>
                in case http call of
                     Inl err \<Rightarrow>
                       (if isinstance err NewConnectionError then Inl (ServiceRequestError err)
                        else if isinstance err ReadTimeout then Inl (ServiceResponseError err)
                        else if isinstance err ConnectionError then
                          (if exc_args err \<noteq> [] \<and> arg_isinstance (hd (exc_args err)) ProtocolError
                           then Inl (ServiceResponseError err)
                           else Inl (ServiceRequestError err))
                        else if isinstance err RequestException then Inl (ServiceRequestError err)
                        else Inl (Uncaught err),
                        w', t)
                   | Inr r \<Rightarrow>
                       (Inr (make_response RequestsTransportResponse req r
                               (data_block_size (connection_config t))),
                        w', t)))))))"

text \<open>
  \<^verbatim>\<open>AsyncioRequestsTransport.send\<close>. \<^verbatim>\<open>kwargs.get("loop", _get_running_loop())\<close> evaluates
  its default eagerly: without a running loop it raises \<^verbatim>\<open>RuntimeError\<close>, after
  \<^verbatim>\<open>self.open()\<close> and outside the \<^verbatim>\<open>try\<close>. The key \<^verbatim>\<open>loop\<close> is read, not removed. The
  blocking call runs in the loop's executor and its outcome, value or exception, is the
  outcome of the \<^verbatim>\<open>await\<close>.
\<close>

definition send_asyncio ::
  "bool \<Rightarrow> (http_call \<Rightarrow> exc + raw_response) \<Rightarrow> world \<times> transport \<Rightarrow> request \<Rightarrow>
   (string \<rightharpoonup> pyval) \<Rightarrow> (raised + response) \<times> world \<times> transport" where
  "send_asyncio loop_running http wt req kwargs =
     (case open_transport wt of (w, t) \<Rightarrow>
        if \<not> loop_running then
          (Inl (Uncaught (Exc RuntimeError [AVal (PStr ''No running event loop'')])), w, t)
        else
        (case session t of
           None \<Rightarrow> (Inl (attribute_error ''request''), w, t)
         | Some a \<Rightarrow>
             (case kw_pop kwargs ''connection_verify'' (verify (connection_config t)) of
                (v, kw1) \<Rightarrow>
             (case kw_pop kw1 ''connection_timeout'' (timeout (connection_config t)) of
                (tm, kw2) \<Rightarrow>
             (case kw_pop kw2 ''connection_cert'' (cert (connection_config t)) of
                (c, kw3) \<Rightarrow>
             if repeated_keyword kw3 then (Inl (type_error ''got multiple values for keyword argument''), w, t)
             else
               (let call = \<lparr> call_session = a,
                              call_method = http_method req,
                              call_url = url req,
                              call_headers = req_headers req,
                              call_data = data req,
                              call_files = files req,
                              call_verify = v,
                              call_timeout = tm,
                              call_cert = c,
                              call_allow_redirects = False,
                              call_kwargs = kw3 \<rparr>;
                    w' = w\<lparr> calls := calls w @ [call] \<rparr>
                in case http call of
                     Inl err \<Rightarrow>
                       (if isinstance err NewConnectionError then Inl (ServiceRequestError err)
                        else if isinstance err ReadTimeout then Inl (ServiceResponseError err)
                        else if isinstance err ConnectionError then
                          (if exc_args err \<noteq> [] \<and> arg_isinstance (hd (exc_args err)) ProtocolError
                           then Inl (ServiceResponseError err)
                           else Inl (ServiceRequestError err))
                        else if isinstance err RequestException then Inl (ServiceRequestError err)
                        else Inl (Uncaught err),
                        w', t)
                   | Inr r \<Rightarrow>
                       (Inr (make_response AsyncioRequestsTransportResponse req r
                               (data_block_size (connection_config t))),
                        w', t)))))))"

text \<open>
  \<^verbatim>\<open>TrioRequestsTransport.send\<close>. \<^verbatim>\<open>kwargs.get("trio_limiter", None)\<close> reads the key and
  leaves it in place; the blocking call runs in a worker thread and its outcome is the
  outcome of the \<^verbatim>\<open>await\<close>.
\<close>

definition send_trio ::
  "(http_call \<Rightarrow> exc + raw_response) \<Rightarrow> world \<times> transport \<Rightarrow> request \<Rightarrow>
   (string \<rightharpoonup> pyval) \<Rightarrow> (raised + response) \<times> world \<times> transport" where
  "send_trio http wt req kwargs =
     (case open_transport wt of (w, t) \<Rightarrow>
        (case session t of
           None \<Rightarrow> (Inl (attribute_error ''request''), w, t)
         | Some a \<Rightarrow>
             (case kw_pop kwargs ''connection_verify'' (verify (connection_config t)) of
                (v, kw1) \<Rightarrow>
             (case kw_pop kw1 ''connection_timeout'' (timeout (connection_config t)) of
                (tm, kw2) \<Rightarrow>
             (case kw_pop kw2 ''connection_cert'' (cert (connection_config t)) of
                (c, kw3) \<Rightarrow>
             if repeated_keyword kw3 then (Inl (type_error ''got multiple values for keyword argument''), w, t)
             else
               (let call = \<lparr> call_session = a,
                              call_method = http_method req,
                              call_url = url req,
                              call_headers = req_headers req,
                              call_data = data req,
                              call_files = files req,
                              call_verify = v,
                              call_timeout = tm,
                              call_cert = c,
                              call_allow_redirects = False,
                              call_kwargs = kw3 \<rparr>;
                    w' = w\<lparr> calls := calls w @ [call] \<rparr>
                in case http call of
                     Inl err \<Rightarrow>
                       (if isinstance err NewConnectionError then Inl (ServiceRequestError err)
                        else if isinstance err ReadTimeout then Inl (ServiceResponseError err)
                        else if isinstance err ConnectionError then
                          (if exc_args err \<noteq> [] \<and> arg_isinstance (hd (exc_args err)) ProtocolError
                           then Inl (ServiceResponseError err)
                           else Inl (ServiceRequestError err))
                        else if isinstance err RequestException then Inl (ServiceRequestError err)
                        else Inl (Uncaught err),
                        w', t)
                   | Inr r \<Rightarrow>
                       (Inr (make_response TrioRequestsTransportResponse req r
                               (data_block_size (connection_config t))),
                        w', t)))))))"

section \<open>StreamDownloadGenerator\<close>

text \<open>
  One pull on \<^verbatim>\<open>iter_content_func\<close>, the iterator \<^verbatim>\<open>iter_content(block_size)\<close> returned:
  it hands out a chunk of bytes or raises. The iterator is the list of the pulls still to
  come; on the empty list \<^verbatim>\<open>next\<close> raises \<^verbatim>\<open>StopIteration\<close>.
\<close>

datatype pull = Chunk string | Fails exc

fun py_next :: "pull list \<Rightarrow> (exc + string) \<times> pull list" where
  "py_next [] = (Inl (Exc StopIteration []), [])"
| "py_next (Chunk c # rest) = (Inr c, rest)"
| "py_next (Fails e # rest) = (Inl e, rest)"

text \<open>
  Python's \<^verbatim>\<open>+\<close> on the values met here: integers (a \<^verbatim>\<open>bool\<close> is an integer) add,
  two \<^verbatim>\<open>str\<close> or two \<^verbatim>\<open>bytes\<close> concatenate, every other pairing raises \<^verbatim>\<open>TypeError\<close>.
\<close>

fun py_int_of :: "pyval \<Rightarrow> int option" where
  "py_int_of (PInt i) = Some i"
| "py_int_of (PBool b) = Some (if b then 1 else 0)"
| "py_int_of v = None"

definition unsupported_operands :: exc where
  "unsupported_operands = Exc TypeError [AVal (PStr ''unsupported operand types for +'')]"

fun py_add :: "pyval \<Rightarrow> pyval \<Rightarrow> exc + pyval" where
  "py_add (PStr a) (PStr b) = Inr (PStr (a @ b))"
| "py_add (PBytes a) (PBytes b) = Inr (PBytes (a @ b))"
| "py_add a b =
     (case (py_int_of a, py_int_of b) of
        (Some i, Some j) \<Rightarrow> Inr (PInt (i + j))
      | _ \<Rightarrow> Inl unsupported_operands)"

text \<open>\<^verbatim>\<open>self.pipeline.run(self.request, stream=True, headers=headers)\<close>.\<close>

record run_call =
  run_request :: request
  run_stream :: bool
  run_headers :: "(string \<times> pyval) list"

text \<open>
  The generator's attributes, and with them what its calls leave behind outside it: how
  often \<^verbatim>\<open>self.response.internal_response.close()\<close> ran, the calls made to
  \<^verbatim>\<open>pipeline.run\<close>, and the arguments of \<^verbatim>\<open>time.sleep\<close>.
\<close>

record generator =
  gen_request :: request
  gen_response :: response
  gen_block_size :: int
  iter_content_func :: "pull list"
  content_length :: int
  downloaded :: pyval
  raw_close_calls :: nat
  pipeline_runs :: "run_call list"
  sleeps :: "int list"


definition close_raw :: "generator \<Rightarrow> generator" where
  "close_raw g = g\<lparr> raw_close_calls := Suc (raw_close_calls g) \<rparr>"

text \<open>
  The \<^verbatim>\<open>try\<close> block of \<^verbatim>\<open>__next__\<close>: the chunk it returns, or the exception that goes to
  the \<^verbatim>\<open>except\<close> clauses.
\<close>

definition try_pull :: "generator \<Rightarrow> (exc + pyval) \<times> generator" where
  "try_pull g =
     (case py_next (iter_content_func g) of
        (Inl e, it) \<Rightarrow> (Inl e, g\<lparr> iter_content_func := it \<rparr>)
      | (Inr chunk, it) \<Rightarrow>
          (let g1 = g\<lparr> iter_content_func := it \<rparr> in
           if chunk = [] then (Inl (Exc StopIteration []), g1)
           else
             (case py_add (downloaded g1) (PInt (gen_block_size g1)) of
                Inl e \<Rightarrow> (Inl e, g1)
              | Inr d \<Rightarrow> (Inr (PBytes chunk), g1\<lparr> downloaded := d \<rparr>))))"

text \<open>
  The \<^verbatim>\<open>else\<close> branch of the clause for \<^verbatim>\<open>ChunkedEncodingError\<close> and
  \<^verbatim>\<open>ConnectionError\<close>, entered with the caught exception \<open>e\<close>. It runs inside the
  handler, so whatever is raised here leaves \<^verbatim>\<open>__next__\<close>: no later \<^verbatim>\<open>except\<close> clause
  of the same \<^verbatim>\<open>try\<close> sees it. The bare \<^verbatim>\<open>raise\<close> re-raises \<open>e\<close>. The second pull is again
  on \<^verbatim>\<open>self.iter_content_func\<close>; \<^verbatim>\<open>resp\<close> is used for its status code only.
\<close>

definition retry_fetch ::
  "(run_call \<Rightarrow> raised + response) \<Rightarrow> exc \<Rightarrow> generator \<Rightarrow> (raised + pyval) \<times> generator" where
  "retry_fetch pipeline e g =
     (let g1 = g\<lparr> sleeps := sleeps g @ [1000] \<rparr> in
      case py_add (PStr ''bytes='') (downloaded g1) of
        Inl te \<Rightarrow> (Inl (Uncaught te), g1)
      | Inr s \<Rightarrow>
     (case py_add s (PStr ''-'') of
        Inl te \<Rightarrow> (Inl (Uncaught te), g1)
      | Inr rng \<Rightarrow>
          (let rc = \<lparr> run_request = gen_request g1, run_stream = True,
                       run_headers = [(''range'', rng)] \<rparr>;
               g2 = g1\<lparr> pipeline_runs := pipeline_runs g1 @ [rc] \<rparr>
           in case pipeline rc of
                Inl pe \<Rightarrow> (Inl pe, g2)
              | Inr resp \<Rightarrow>
                  if status_code resp = 416 then (Inl (Uncaught e), g2)
                  else
                    (case py_next (iter_content_func g2) of
                       (Inl e2, it) \<Rightarrow> (Inl (Uncaught e2), g2\<lparr> iter_content_func := it \<rparr>)
                     | (Inr chunk, it) \<Rightarrow>
                         (let g3 = g2\<lparr> iter_content_func := it \<rparr> in
                          if chunk = [] then (Inl (Uncaught (Exc StopIteration [])), g3)
                          else
                            (case py_add (downloaded g3) (PBytes chunk) of
                               Inl te \<Rightarrow> (Inl (Uncaught te), g3)
                             | Inr d \<Rightarrow> (Inr (PBytes chunk), g3\<lparr> downloaded := d \<rparr>)))))))"

text \<open>
  The \<^verbatim>\<open>while retry_active\<close> loop of \<^verbatim>\<open>__next__\<close>, with the loop variables
  \<^verbatim>\<open>retry_active\<close> and \<^verbatim>\<open>retry_total\<close> as arguments. Leaving the loop falls off the end
  of the method, which returns \<^verbatim>\<open>None\<close>.
\<close>

function next_loop ::
  "(run_call \<Rightarrow> raised + response) \<Rightarrow> bool \<Rightarrow> int \<Rightarrow> generator \<Rightarrow>
   (raised + pyval) \<times> generator" where
  "next_loop pipeline retry_active retry_total g =
     (if \<not> retry_active then (Inr PNone, g)
      else
        (case try_pull g of
           (Inr chunk, g1) \<Rightarrow> (Inr chunk, g1)
         | (Inl e, g1) \<Rightarrow>
             if isinstance e StopIteration then
               (Inl (Uncaught (Exc StopIteration [])), close_raw g1)
             else if isinstance e ChunkedEncodingError \<or> isinstance e ConnectionError then
               (if retry_total - 1 \<le> 0 then next_loop pipeline False (retry_total - 1) g1
                else retry_fetch pipeline e g1)
             else if isinstance e StreamConsumedError then (Inl (Uncaught e), g1)
             else if isinstance e Exception then (Inl (Uncaught e), close_raw g1)
             else (Inl (Uncaught e), g1)))"
  by pat_completeness auto
termination
  by (relation "measure (\<lambda>(p, a, n, g). if a then 1 else 0)") auto

text \<open>\<^verbatim>\<open>__next__\<close>: \<^verbatim>\<open>retry_active = True\<close>, \<^verbatim>\<open>retry_total = 3\<close>, then the loop.\<close>

definition gen_next ::
  "(run_call \<Rightarrow> raised + response) \<Rightarrow> generator \<Rightarrow> (raised + pyval) \<times> generator" where
  "gen_next pipeline g = next_loop pipeline True 3 g"

section \<open>Callers\<close>

text \<open>
  The three transports side by side. The asyncio coroutine is awaited on a running
  event loop.
\<close>

datatype variant = Direct | Asyncio | Trio

definition send_variant ::
  "variant \<Rightarrow> (http_call \<Rightarrow> exc + raw_response) \<Rightarrow> world \<times> transport \<Rightarrow> request \<Rightarrow>
   (string \<rightharpoonup> pyval) \<Rightarrow> (raised + response) \<times> world \<times> transport" where
  "send_variant v http wt req kwargs =
     (case v of
        Direct \<Rightarrow> send http wt req kwargs
      | Asyncio \<Rightarrow> send_asyncio True http wt req kwargs
      | Trio \<Rightarrow> send_trio http wt req kwargs)"

text \<open>The exception a call ended with, if it did.\<close>

definition error_of :: "raised + 'a \<Rightarrow> raised option" where
  "error_of r = (case r of Inl err \<Rightarrow> Some err | Inr x \<Rightarrow> None)"

text \<open>
  A client of one transport calling \<^verbatim>\<open>open\<close>, \<^verbatim>\<open>close\<close> and \<^verbatim>\<open>send\<close> in any order, going
  on after a call that raised, with what each call gave.
\<close>

datatype client_call = Open | Close | Send request "string \<rightharpoonup> pyval"

datatype call_result = Opened | Closed "raised + unit" | Sent "raised + response"

fun run_calls ::
  "(http_call \<Rightarrow> exc + raw_response) \<Rightarrow> client_call list \<Rightarrow> world \<times> transport \<Rightarrow>
   call_result list \<times> world \<times> transport" where
  "run_calls http [] wt = ([], wt)"
| "run_calls http (Open # cs) wt =
     (case run_calls http cs (open_transport wt) of (rs, wt') \<Rightarrow> (Opened # rs, wt'))"
| "run_calls http (Close # cs) wt =
     (case close_transport wt of (r, wt1) \<Rightarrow>
        (case run_calls http cs wt1 of (rs, wt') \<Rightarrow> (Closed r # rs, wt')))"
| "run_calls http (Send req kwargs # cs) wt =
     (case send http wt req kwargs of (r, wt1) \<Rightarrow>
        (case run_calls http cs wt1 of (rs, wt') \<Rightarrow> (Sent r # rs, wt')))"

text \<open>\<open>n\<close> calls of \<^verbatim>\<open>__next__\<close> in a row on one generator, with what each call gave.\<close>

fun next_times ::
  "(run_call \<Rightarrow> raised + response) \<Rightarrow> nat \<Rightarrow> generator \<Rightarrow>
   (raised + pyval) list \<times> generator" where
  "next_times pipeline 0 g = ([], g)"
| "next_times pipeline (Suc n) g =
     (case gen_next pipeline g of (r, g1) \<Rightarrow>
        (case next_times pipeline n g1 of (rs, g2) \<Rightarrow> (r # rs, g2)))"

text \<open>The bytes the calls handed to the caller, in order.\<close>

fun emitted :: "(raised + pyval) list \<Rightarrow> string" where
  "emitted [] = []"
| "emitted (Inr (PBytes c) # rs) = c @ emitted rs"
| "emitted (r # rs) = emitted rs"

text \<open>
  What each call gives on a transport that has neither a session nor the ownership of
  one: \<^verbatim>\<open>open\<close> and \<^verbatim>\<open>close\<close> return, \<^verbatim>\<open>send\<close> raises \<^verbatim>\<open>AttributeError\<close> on the absent
  session.
\<close>

definition after_close_result :: "client_call \<Rightarrow> call_result" where
  "after_close_result c =
     (case c of
        Open \<Rightarrow> Opened
      | Close \<Rightarrow> Closed (Inr ())
      | Send req kwargs \<Rightarrow> Sent (Inl (attribute_error ''request'')))"

section \<open>Sample inputs\<close>

definition example_request :: request where
  "example_request =
     \<lparr> http_method = ''GET'', url = ''http://host/blob'', req_headers = [],
       data = PNone, files = PNone \<rparr>"

definition example_config :: connection_configuration where
  "example_config =
     \<lparr> verify = PBool True, timeout = PInt 100, cert = PNone, data_block_size = 4 \<rparr>"

definition example_world :: world where
  "example_world =
     \<lparr> sessions = (\<lambda>a. \<lparr> trust_env = True, adapters = Map.empty, close_calls = 0 \<rparr>),
       next_session = 0,
       calls = [] \<rparr>"

text \<open>A transport built with no keyword at all: no session yet, and the owner of one.\<close>

definition example_transport :: transport where
  "example_transport = transport_init None None None example_config"

section \<open>Auxiliary definitions\<close>

text \<open>
  The failure classification as the design states it: a failure to establish the
  connection is a request error, a read timeout a response error, a connection-level
  error a response error when its first argument is a protocol-level error and a request
  error otherwise, any other request exception a request error; anything else is not
  classified.
\<close>

definition failure_classification :: "exc \<Rightarrow> raised" where
  "failure_classification err =
     (if isinstance err NewConnectionError then ServiceRequestError err
      else if isinstance err ReadTimeout then ServiceResponseError err
      else if isinstance err ConnectionError then
        (if exc_args err \<noteq> [] \<and> arg_isinstance (hd (exc_args err)) ProtocolError
         then ServiceResponseError err else ServiceRequestError err)
      else if isinstance err RequestException then ServiceRequestError err
      else Uncaught err)"

text \<open>
  The call a transport with session \<open>a\<close> makes for a request and keyword options none of
  which repeats a keyword argument.
\<close>

definition built_call :: "nat \<Rightarrow> transport \<Rightarrow> request \<Rightarrow> (string \<rightharpoonup> pyval) \<Rightarrow> http_call" where
  "built_call a t req kw =
     \<lparr> call_session = a, call_method = http_method req, call_url = url req,
       call_headers = req_headers req, call_data = data req, call_files = files req,
       call_verify = (case kw ''connection_verify'' of None \<Rightarrow> verify (connection_config t) | Some v \<Rightarrow> v),
       call_timeout = (case kw ''connection_timeout'' of None \<Rightarrow> timeout (connection_config t) | Some v \<Rightarrow> v),
       call_cert = (case kw ''connection_cert'' of None \<Rightarrow> cert (connection_config t) | Some v \<Rightarrow> v),
       call_allow_redirects = False,
       call_kwargs = kw(''connection_verify'' := None, ''connection_timeout'' := None,
          ''connection_cert'' := None) \<rparr>"

text \<open>The response class each transport wraps the raw response in.\<close>

definition variant_class :: "variant \<Rightarrow> response_class" where
  "variant_class v =
     (case v of
        Direct \<Rightarrow> RequestsTransportResponse
      | Asyncio \<Rightarrow> AsyncioRequestsTransportResponse
      | Trio \<Rightarrow> TrioRequestsTransportResponse)"

text \<open>A library in which every call raises \<open>e\<close>.\<close>

definition always_fails :: "exc \<Rightarrow> http_call \<Rightarrow> exc + raw_response" where
  "always_fails e c = Inl e"

text \<open>The call made for \<open>example_request\<close> with no keyword option on the first session.\<close>

definition example_call :: http_call where
  "example_call =
     \<lparr> call_session = 0, call_method = ''GET'', call_url = ''http://host/blob'',
       call_headers = [], call_data = PNone, call_files = PNone,
       call_verify = PBool True, call_timeout = PInt 100, call_cert = PNone,
       call_allow_redirects = False, call_kwargs = Map.empty \<rparr>"

text \<open>A raw response with status 302 and a \<^verbatim>\<open>Location\<close> header.\<close>

definition redirect_response :: raw_response where
  "redirect_response =
     \<lparr> raw_status_code = 302, raw_headers = [(''Location'', ''http://elsewhere/'')],
       raw_reason = ''Found'' \<rparr>"

text \<open>A library in which every call returns that response.\<close>

definition always_redirects :: "http_call \<Rightarrow> exc + raw_response" where
  "always_redirects c = Inr redirect_response"

text \<open>
  The generator \<^verbatim>\<open>__init__\<close> builds for a response without \<^verbatim>\<open>Content-Length\<close>, block size
  4, over a body that will deliver the given pulls.
\<close>

definition example_generator :: "pull list \<Rightarrow> generator" where
  "example_generator body =
     \<lparr> gen_request = example_request,
       gen_response = make_response RequestsTransportResponse example_request
         \<lparr> raw_status_code = 200, raw_headers = [], raw_reason = ''OK'' \<rparr> 4,
       gen_block_size = 4,
       iter_content_func = body,
       content_length = 0,
       downloaded = PInt 0,
       raw_close_calls = 0,
       pipeline_runs = [],
       sleeps = [] \<rparr>"

text \<open>A pipeline whose \<^verbatim>\<open>run\<close> answers every request with the given status code.\<close>

definition pipeline_status :: "int \<Rightarrow> run_call \<Rightarrow> raised + response" where
  "pipeline_status n rc =
     Inr (make_response RequestsTransportResponse (run_request rc)
            \<lparr> raw_status_code = n, raw_headers = [], raw_reason = [] \<rparr> 4)"

text \<open>
  The \<^verbatim>\<open>requests.exceptions.ConnectionError\<close> a broken connection gives while the body is
  read.
\<close>

definition connection_reset :: exc where
  "connection_reset = Exc ConnectionError [AExc (Exc ProtocolError [])]"

section \<open>Lifecycle of the session\<close>

lemma open_transport_session:
  "session_owner t0 \<Longrightarrow> open_transport (w0, t0) = (w, t) \<Longrightarrow>
   session t \<noteq> None \<and> session_owner t"
  by (auto simp: open_transport_def new_session_def split: if_splits prod.splits)

text \<open>
  Claim C8. On a transport that owns its session and has opened it, the first \<^verbatim>\<open>close()\<close>
  returns, calls the session's \<^verbatim>\<open>close\<close> once, and leaves the transport with no session
  and no ownership; the second \<^verbatim>\<open>close()\<close> returns too and changes neither the transport
  nor the store, so the session is not released a second time.
\<close>

theorem close_twice_safe:
  assumes own: "session_owner t0"
    and op: "open_transport (w0, t0) = (w, t)"
    and c1: "close_transport (w, t) = (r1, w1, t1)"
    and c2: "close_transport (w1, t1) = (r2, w2, t2)"
  shows "r1 = Inr () \<and> session t1 = None \<and> \<not> session_owner t1 \<and>
         (\<exists>a. session t = Some a \<and>
              close_calls (sessions w1 a) = Suc (close_calls (sessions w a)) \<and>
              close_calls (sessions w2 a) = Suc (close_calls (sessions w a))) \<and>
         r2 = Inr () \<and> w2 = w1 \<and> t2 = t1"
proof -
  from open_transport_session [OF own op] obtain a
    where a: "session t = Some a" and o: "session_owner t"
    by auto
  from c1 a o have r1: "r1 = Inr ()"
    and w1: "w1 = w\<lparr> sessions := (sessions w)
                      (a := (sessions w a)\<lparr> close_calls := Suc (close_calls (sessions w a)) \<rparr>) \<rparr>"
    and t1: "t1 = t\<lparr> session_owner := False, session := None \<rparr>"
    by (simp_all add: close_transport_def)
  from c2 t1 have "r2 = Inr () \<and> w2 = w1 \<and> t2 = t1"
    by (simp add: close_transport_def)
  with r1 w1 t1 a show ?thesis by simp
qed

theorem close_twice_safe_witness:
  "session_owner example_transport \<and>
   fst (close_transport (open_transport (example_world, example_transport))) = Inr () \<and>
   close_transport (snd (close_transport (open_transport (example_world, example_transport))))
     = (Inr (), snd (close_transport (open_transport (example_world, example_transport))))"
proof -
  let ?wt = "open_transport (example_world, example_transport)"
  let ?c1 = "close_transport ?wt"
  let ?c2 = "close_transport (snd ?c1)"
  have own: "session_owner example_transport"
    by (simp add: example_transport_def transport_init_def)
  have op: "open_transport (example_world, example_transport) = (fst ?wt, snd ?wt)"
    by simp
  have c1: "close_transport (fst ?wt, snd ?wt) = (fst ?c1, fst (snd ?c1), snd (snd ?c1))"
    by simp
  have c2: "close_transport (fst (snd ?c1), snd (snd ?c1)) = (fst ?c2, fst (snd ?c2), snd (snd ?c2))"
    by simp
  from close_twice_safe [OF own op c1 c2]
  have "fst ?c1 = Inr () \<and> fst ?c2 = Inr () \<and> fst (snd ?c2) = fst (snd ?c1) \<and>
        snd (snd ?c2) = snd (snd ?c1)"
    by blast
  then have "fst ?c1 = Inr () \<and> ?c2 = (Inr (), snd ?c1)"
    by (metis prod.collapse)
  with own show ?thesis by blast
qed

text \<open>
  Claim C10. On a transport built without a session and with ownership (the default, or
  \<^verbatim>\<open>session_owner=True\<close>), \<^verbatim>\<open>close()\<close> before any \<^verbatim>\<open>open()\<close> raises \<^verbatim>\<open>AttributeError\<close> on the
  \<^verbatim>\<open>None\<close> session and changes nothing.
\<close>

theorem close_unopened_raises:
  "close_transport (w, transport_init None None env_kw cfg) =
     (Inl (Uncaught (Exc AttributeError
        [AVal (PStr ''NoneType object has no attribute close'')])),
      w, transport_init None None env_kw cfg) \<and>
   close_transport (w, transport_init None (Some True) env_kw cfg) =
     (Inl (Uncaught (Exc AttributeError
        [AVal (PStr ''NoneType object has no attribute close'')])),
      w, transport_init None (Some True) env_kw cfg)"
  by (simp add: close_transport_def transport_init_def attribute_error_def)

lemma run_calls_dead:
  "session t = None \<Longrightarrow> \<not> session_owner t \<Longrightarrow>
   run_calls http cs (w, t) = (map after_close_result cs, w, t)"
proof (induction cs)
  case Nil
  then show ?case by simp
next
  case (Cons c cs)
  then show ?case
    by (cases c)
       (simp_all add: open_transport_def close_transport_def send_def after_close_result_def)
qed

text \<open>
  Claim C9. Once \<^verbatim>\<open>close()\<close> has returned on a transport that owned its session, the
  transport has no session and no ownership, and that can not change again: \<^verbatim>\<open>open()\<close>
  creates nothing, \<^verbatim>\<open>send()\<close> raises \<^verbatim>\<open>AttributeError\<close> on the absent session without
  issuing a call, and after any sequence of \<^verbatim>\<open>open\<close>, \<^verbatim>\<open>close\<close> and \<^verbatim>\<open>send\<close> calls the
  transport and the store are what they were.
\<close>

theorem closed_transport_stays_closed:
  assumes "session_owner t" and "close_transport (w, t) = (Inr (), w1, t1)"
  shows "session t1 = None \<and> \<not> session_owner t1 \<and>
         open_transport (w1, t1) = (w1, t1) \<and>
         send http (w1, t1) req kwargs = (Inl (attribute_error ''request''), w1, t1) \<and>
         run_calls http cs (w1, t1) = (map after_close_result cs, w1, t1)"
proof -
  from assms have dead: "session t1 = None \<and> \<not> session_owner t1"
    by (auto simp: close_transport_def split: option.splits)
  then have "open_transport (w1, t1) = (w1, t1)"
    by (simp add: open_transport_def)
  moreover from dead have
    "send http (w1, t1) req kwargs = (Inl (attribute_error ''request''), w1, t1)"
    by (simp add: send_def open_transport_def)
  ultimately show ?thesis using dead by (simp add: run_calls_dead)
qed

theorem closed_transport_stays_closed_witness:
  "session_owner (example_transport\<lparr> session := Some 0 \<rparr>) \<and>
   fst (close_transport (example_world, example_transport\<lparr> session := Some 0 \<rparr>)) = Inr () \<and>
   run_calls (\<lambda>c. Inr \<lparr> raw_status_code = 200, raw_headers = [], raw_reason = ''OK'' \<rparr>)
     [Open, Send example_request Map.empty, Close, Open]
     (snd (close_transport (example_world, example_transport\<lparr> session := Some 0 \<rparr>))) =
     ([Opened, Sent (Inl (attribute_error ''request'')), Closed (Inr ()), Opened],
      snd (close_transport (example_world, example_transport\<lparr> session := Some 0 \<rparr>)))"
proof -
  let ?t = "example_transport\<lparr> session := Some 0 \<rparr>"
  let ?c = "close_transport (example_world, ?t)"
  have own: "session_owner ?t"
    by (simp add: example_transport_def transport_init_def)
  have ok: "fst ?c = Inr ()"
    by (simp add: close_transport_def example_transport_def transport_init_def)
  then have c: "close_transport (example_world, ?t) = (Inr (), fst (snd ?c), snd (snd ?c))"
    by (metis prod.collapse)
  from closed_transport_stays_closed [OF own c]
  have "run_calls (\<lambda>c. Inr \<lparr> raw_status_code = 200, raw_headers = [], raw_reason = ''OK'' \<rparr>)
          [Open, Send example_request Map.empty, Close, Open] (fst (snd ?c), snd (snd ?c)) =
        (map after_close_result [Open, Send example_request Map.empty, Close, Open],
         fst (snd ?c), snd (snd ?c))"
    by blast
  then show ?thesis using own ok by (simp add: after_close_result_def)
qed

section \<open>Failure classification of send\<close>

lemma repeated_keyword_pops:
  "repeated_keyword (kw(''connection_verify'' := None, ''connection_timeout'' := None,
      ''connection_cert'' := None)) = repeated_keyword kw"
  by (simp add: repeated_keyword_def keyword_names_def)

lemma chain_fold:
  "(if isinstance err NewConnectionError then Inl (ServiceRequestError err)
    else if isinstance err ReadTimeout then Inl (ServiceResponseError err)
    else if isinstance err ConnectionError then
      (if exc_args err \<noteq> [] \<and> arg_isinstance (hd (exc_args err)) ProtocolError
       then Inl (ServiceResponseError err)
       else Inl (ServiceRequestError err))
    else if isinstance err RequestException then Inl (ServiceRequestError err)
    else Inl (Uncaught err)) = (Inl (failure_classification err) :: raised + response)"
  by (simp add: failure_classification_def)

lemma pops:
  "fun_upd (fun_upd kw ''connection_verify'' None) ''connection_timeout'' None ''connection_cert'' = kw ''connection_cert''"
  "fun_upd kw ''connection_verify'' None ''connection_timeout'' = kw ''connection_timeout''"
  by simp_all

lemma send_unfold:
  assumes "open_transport wt = (w, t)"
  shows "send http wt req kw =
     (case session t of
        None \<Rightarrow> (Inl (attribute_error ''request''), w, t)
      | Some a \<Rightarrow>
          if repeated_keyword kw
          then (Inl (type_error ''got multiple values for keyword argument''), w, t)
          else (case http (built_call a t req kw) of
                  Inl err \<Rightarrow>
                    (Inl (failure_classification err),
                     w\<lparr> calls := calls w @ [built_call a t req kw] \<rparr>, t)
                | Inr r \<Rightarrow>
                    (Inr (make_response RequestsTransportResponse req r
                            (data_block_size (connection_config t))),
                     w\<lparr> calls := calls w @ [built_call a t req kw] \<rparr>, t)))"
  unfolding send_def assms prod.case kw_pop_def Let_def chain_fold built_call_def pops
    repeated_keyword_pops not_True_eq_False if_False
  by (rule refl)

lemma send_asyncio_unfold:
  assumes "open_transport wt = (w, t)"
  shows "send_asyncio True http wt req kw =
     (case session t of
        None \<Rightarrow> (Inl (attribute_error ''request''), w, t)
      | Some a \<Rightarrow>
          if repeated_keyword kw
          then (Inl (type_error ''got multiple values for keyword argument''), w, t)
          else (case http (built_call a t req kw) of
                  Inl err \<Rightarrow>
                    (Inl (failure_classification err),
                     w\<lparr> calls := calls w @ [built_call a t req kw] \<rparr>, t)
                | Inr r \<Rightarrow>
                    (Inr (make_response AsyncioRequestsTransportResponse req r
                            (data_block_size (connection_config t))),
                     w\<lparr> calls := calls w @ [built_call a t req kw] \<rparr>, t)))"
  unfolding send_asyncio_def assms prod.case kw_pop_def Let_def chain_fold built_call_def pops
    repeated_keyword_pops not_True_eq_False if_False
  by (rule refl)

lemma send_trio_unfold:
  assumes "open_transport wt = (w, t)"
  shows "send_trio http wt req kw =
     (case session t of
        None \<Rightarrow> (Inl (attribute_error ''request''), w, t)
      | Some a \<Rightarrow>
          if repeated_keyword kw
          then (Inl (type_error ''got multiple values for keyword argument''), w, t)
          else (case http (built_call a t req kw) of
                  Inl err \<Rightarrow>
                    (Inl (failure_classification err),
                     w\<lparr> calls := calls w @ [built_call a t req kw] \<rparr>, t)
                | Inr r \<Rightarrow>
                    (Inr (make_response TrioRequestsTransportResponse req r
                            (data_block_size (connection_config t))),
                     w\<lparr> calls := calls w @ [built_call a t req kw] \<rparr>, t)))"
  unfolding send_trio_def assms prod.case kw_pop_def Let_def chain_fold built_call_def pops
    repeated_keyword_pops not_True_eq_False if_False
  by (rule refl)

lemma send_variant_unfold:
  assumes "open_transport wt = (w, t)"
  shows "send_variant v http wt req kw =
     (case session t of
        None \<Rightarrow> (Inl (attribute_error ''request''), w, t)
      | Some a \<Rightarrow>
          if repeated_keyword kw
          then (Inl (type_error ''got multiple values for keyword argument''), w, t)
          else (case http (built_call a t req kw) of
                  Inl err \<Rightarrow>
                    (Inl (failure_classification err),
                     w\<lparr> calls := calls w @ [built_call a t req kw] \<rparr>, t)
                | Inr r \<Rightarrow>
                    (Inr (make_response (variant_class v) req r
                            (data_block_size (connection_config t))),
                     w\<lparr> calls := calls w @ [built_call a t req kw] \<rparr>, t)))"
  by (cases v)
     (simp_all only: send_variant_def variant.case variant_class_def
        send_unfold [OF assms] send_asyncio_unfold [OF assms] send_trio_unfold [OF assms])

lemma open_transport_calls: "open_transport (w0, t0) = (w, t) \<Longrightarrow> calls w = calls w0"
  by (auto simp: open_transport_def new_session_def split: if_splits)

lemma open_transport_available:
  "session t0 \<noteq> None \<or> session_owner t0 \<Longrightarrow> open_transport (w0, t0) = (w, t) \<Longrightarrow>
   session t \<noteq> None"
  by (auto simp: open_transport_def new_session_def split: if_splits)

lemma send_variant_outcomes:
  assumes "send_variant v http (w0, t0) req kw = (r, w', t')"
  shows "(calls w' = calls w0 \<and> r = Inl (attribute_error ''request'')) \<or>
         (calls w' = calls w0 \<and> repeated_keyword kw \<and>
            r = Inl (type_error ''got multiple values for keyword argument'')) \<or>
         (\<exists>c. calls w' = calls w0 @ [c] \<and> \<not> call_allow_redirects c \<and>
              \<not> repeated_keyword kw \<and>
              (case http c of
                 Inl err \<Rightarrow> r = Inl (failure_classification err)
               | Inr raw \<Rightarrow>
                   r = Inr (make_response (variant_class v) req raw
                              (data_block_size (connection_config t')))))"
proof -
  obtain w t where op: "open_transport (w0, t0) = (w, t)"
    by (cases "open_transport (w0, t0)")
  note cs = open_transport_calls [OF op]
  show ?thesis
  proof (cases "session t")
    case None
    with assms op cs show ?thesis
      by (simp add: send_variant_unfold [OF op])
  next
    case (Some a)
    show ?thesis
    proof (cases "repeated_keyword kw")
      case True
      with assms op cs Some show ?thesis
        by (simp add: send_variant_unfold [OF op])
    next
      case False
      have "\<not> call_allow_redirects (built_call a t req kw)"
        by (simp add: built_call_def)
      with assms op cs Some False show ?thesis
        by (cases "http (built_call a t req kw)")
           (auto simp add: send_variant_unfold [OF op])
    qed
  qed
qed

lemma read_timeout_not_new_connection:
  "isinstance e ReadTimeout \<Longrightarrow> \<not> isinstance e NewConnectionError"
  by (cases "exc_cls e") (simp_all add: isinstance_def)

lemma connection_error_not_earlier:
  "isinstance e ConnectionError \<Longrightarrow>
   \<not> isinstance e NewConnectionError \<and> \<not> isinstance e ReadTimeout"
  by (cases "exc_cls e") (simp_all add: isinstance_def)

lemma request_exception_not_new_connection:
  "isinstance e RequestException \<Longrightarrow> \<not> isinstance e NewConnectionError"
  by (cases "exc_cls e") (simp_all add: isinstance_def)

lemma send_variant_issued:
  assumes "calls (fst (snd (send_variant v http wt req kw))) = calls (fst wt) @ [c]"
    and "http c = Inl e"
  shows "fst (send_variant v http wt req kw) = Inl (failure_classification e)"
proof -
  obtain r w' t' where s: "send_variant v http wt req kw = (r, w', t')"
    by (cases "send_variant v http wt req kw")
  obtain w0 t0 where wt: "wt = (w0, t0)"
    by (cases wt)
  from send_variant_outcomes [OF s [unfolded wt]] assms s wt show ?thesis
    by auto
qed

text \<open>
  Claim C1. In each of the three transports, when \<^verbatim>\<open>send\<close> has issued the underlying
  HTTP call and the call raised \<open>e\<close>: a \<^verbatim>\<open>NewConnectionError\<close> gives
  \<^verbatim>\<open>ServiceRequestError\<close>; a \<^verbatim>\<open>ReadTimeout\<close> gives \<^verbatim>\<open>ServiceResponseError\<close>; a
  \<^verbatim>\<open>ConnectionError\<close> whose first argument is a \<^verbatim>\<open>ProtocolError\<close> gives
  \<^verbatim>\<open>ServiceResponseError\<close>; any other \<^verbatim>\<open>ConnectionError\<close>, and any other
  \<^verbatim>\<open>RequestException\<close>, gives \<^verbatim>\<open>ServiceRequestError\<close>. The error raised carries \<open>e\<close>.
\<close>

theorem send_failure_classification:
  assumes issued: "calls (fst (snd (send_variant v http wt req kw))) = calls (fst wt) @ [c]"
    and failed: "http c = Inl e"
  shows "(isinstance e NewConnectionError \<longrightarrow>
            fst (send_variant v http wt req kw) = Inl (ServiceRequestError e)) \<and>
         (isinstance e ReadTimeout \<longrightarrow>
            fst (send_variant v http wt req kw) = Inl (ServiceResponseError e)) \<and>
         (isinstance e ConnectionError \<and> exc_args e \<noteq> [] \<and>
          arg_isinstance (hd (exc_args e)) ProtocolError \<longrightarrow>
            fst (send_variant v http wt req kw) = Inl (ServiceResponseError e)) \<and>
         (isinstance e ConnectionError \<and>
          \<not> (exc_args e \<noteq> [] \<and> arg_isinstance (hd (exc_args e)) ProtocolError) \<longrightarrow>
            fst (send_variant v http wt req kw) = Inl (ServiceRequestError e)) \<and>
         (isinstance e RequestException \<and> \<not> isinstance e ConnectionError \<and>
          \<not> isinstance e ReadTimeout \<longrightarrow>
            fst (send_variant v http wt req kw) = Inl (ServiceRequestError e))"
proof -
  have r: "fst (send_variant v http wt req kw) = Inl (failure_classification e)"
    by (rule send_variant_issued [OF issued failed])
  have 1: "isinstance e NewConnectionError \<Longrightarrow> failure_classification e = ServiceRequestError e"
    by (simp add: failure_classification_def)
  have 2: "isinstance e ReadTimeout \<Longrightarrow> failure_classification e = ServiceResponseError e"
    using read_timeout_not_new_connection [of e] by (simp add: failure_classification_def)
  have 3: "isinstance e ConnectionError \<Longrightarrow> exc_args e \<noteq> [] \<Longrightarrow>
           arg_isinstance (hd (exc_args e)) ProtocolError \<Longrightarrow>
           failure_classification e = ServiceResponseError e"
    using connection_error_not_earlier [of e] by (simp add: failure_classification_def)
  have 4: "isinstance e ConnectionError \<Longrightarrow>
           \<not> (exc_args e \<noteq> [] \<and> arg_isinstance (hd (exc_args e)) ProtocolError) \<Longrightarrow>
           failure_classification e = ServiceRequestError e"
    using connection_error_not_earlier [of e] by (simp add: failure_classification_def)
  have 5: "isinstance e RequestException \<Longrightarrow> \<not> isinstance e ConnectionError \<Longrightarrow>
           \<not> isinstance e ReadTimeout \<Longrightarrow> failure_classification e = ServiceRequestError e"
    using request_exception_not_new_connection [of e] by (simp add: failure_classification_def)
  from 1 2 3 4 5 show ?thesis
    unfolding r by blast
qed

lemma example_send_calls:
  "calls (fst (snd (send_variant v http (example_world, example_transport)
      example_request Map.empty))) = calls example_world @ [example_call]"
proof -
  obtain w t where op: "open_transport (example_world, example_transport) = (w, t)"
    by (cases "open_transport (example_world, example_transport)")
  then have t: "session t = Some 0" and w: "calls w = []"
    and c: "connection_config t = example_config"
    by (auto simp: open_transport_def new_session_def example_transport_def
        transport_init_def example_world_def split: if_splits)
  have b: "built_call 0 t example_request Map.empty = example_call"
    by (simp add: built_call_def c example_config_def example_request_def example_call_def)
  have k: "\<not> repeated_keyword Map.empty"
    by (simp add: repeated_keyword_def keyword_names_def)
  have e: "calls example_world = []"
    by (simp add: example_world_def)
  show ?thesis
    by (cases "http example_call")
       (simp_all add: send_variant_unfold [OF op] t k b w e)
qed

theorem send_failure_classification_witness:
  "fst (send_variant Direct (always_fails (Exc NewConnectionError []))
        (example_world, example_transport) example_request Map.empty) =
     Inl (ServiceRequestError (Exc NewConnectionError [])) \<and>
   fst (send_variant Asyncio (always_fails (Exc ReadTimeout []))
        (example_world, example_transport) example_request Map.empty) =
     Inl (ServiceResponseError (Exc ReadTimeout [])) \<and>
   fst (send_variant Trio (always_fails (Exc ConnectionError [AExc (Exc ProtocolError [])]))
        (example_world, example_transport) example_request Map.empty) =
     Inl (ServiceResponseError (Exc ConnectionError [AExc (Exc ProtocolError [])])) \<and>
   fst (send_variant Direct (always_fails (Exc ConnectTimeout []))
        (example_world, example_transport) example_request Map.empty) =
     Inl (ServiceRequestError (Exc ConnectTimeout [])) \<and>
   fst (send_variant Asyncio (always_fails (Exc TooManyRedirects []))
        (example_world, example_transport) example_request Map.empty) =
     Inl (ServiceRequestError (Exc TooManyRedirects []))"
proof -
  have f: "\<And>e. always_fails e example_call = Inl e"
    by (simp add: always_fails_def)
  have i: "\<And>v e. calls (fst (snd (send_variant v (always_fails e)
      (example_world, example_transport) example_request Map.empty))) =
      calls (fst (example_world, example_transport)) @ [example_call]"
    by (simp add: example_send_calls)
  show ?thesis
    using send_failure_classification [where v = Direct and e = "Exc NewConnectionError []",
        OF i f]
      send_failure_classification [where v = Asyncio and e = "Exc ReadTimeout []", OF i f]
      send_failure_classification [where v = Trio and
        e = "Exc ConnectionError [AExc (Exc ProtocolError [])]", OF i f]
      send_failure_classification [where v = Direct and e = "Exc ConnectTimeout []", OF i f]
      send_failure_classification [where v = Asyncio and e = "Exc TooManyRedirects []",
        OF i f]
    by (simp add: isinstance_def)
qed

text \<open>
  Claim C7. For the same transport, request, options and library behaviour, the asyncio
  and the trio transport end with the very exception the direct transport ends with (or
  with none when it returns), and leave the same transport and store behind.
\<close>

theorem variants_raise_same_error:
  "error_of (fst (send_variant v http wt req kw)) = error_of (fst (send http wt req kw)) \<and>
   snd (send_variant v http wt req kw) = snd (send http wt req kw) \<and>
   error_of (fst (send_asyncio True http wt req kw)) = error_of (fst (send http wt req kw)) \<and>
   error_of (fst (send_trio http wt req kw)) = error_of (fst (send http wt req kw))"
proof -
  obtain w t where op: "open_transport wt = (w, t)"
    by (cases "open_transport wt")
  have "error_of (fst (send_variant u http wt req kw)) =
          error_of (fst (send_variant Direct http wt req kw)) \<and>
        snd (send_variant u http wt req kw) = snd (send_variant Direct http wt req kw)" for u
    by (simp add: send_variant_unfold [OF op] error_of_def
        split: option.splits sum.splits)
  from this [of v] this [of Asyncio] this [of Trio] show ?thesis
    by (simp add: send_variant_def)
qed

theorem variants_raise_same_error_witness:
  "error_of (fst (send_asyncio True (always_fails (Exc ReadTimeout []))
      (example_world, example_transport) example_request Map.empty)) =
     Some (ServiceResponseError (Exc ReadTimeout [])) \<and>
   error_of (fst (send_trio (always_fails (Exc ReadTimeout []))
      (example_world, example_transport) example_request Map.empty)) =
     Some (ServiceResponseError (Exc ReadTimeout [])) \<and>
   error_of (fst (send (always_fails (Exc ReadTimeout []))
      (example_world, example_transport) example_request Map.empty)) =
     Some (ServiceResponseError (Exc ReadTimeout []))"
proof -
  obtain w t where op: "open_transport (example_world, example_transport) = (w, t)"
    by (cases "open_transport (example_world, example_transport)")
  then have t: "session t = Some 0"
    by (auto simp: open_transport_def new_session_def example_transport_def
        transport_init_def example_world_def split: if_splits)
  have k: "\<not> repeated_keyword Map.empty"
    by (simp add: repeated_keyword_def keyword_names_def)
  have "error_of (fst (send (always_fails (Exc ReadTimeout []))
      (example_world, example_transport) example_request Map.empty)) =
     Some (ServiceResponseError (Exc ReadTimeout []))"
    by (simp add: send_unfold [OF op] t k always_fails_def error_of_def failure_classification_def
        isinstance_def)
  then show ?thesis
    using variants_raise_same_error [of Direct "always_fails (Exc ReadTimeout [])"
        "(example_world, example_transport)" example_request Map.empty]
    by simp
qed

section \<open>Redirects\<close>

text \<open>
  An option set that names \<^verbatim>\<open>allow_redirects\<close> itself: the call
  \<^verbatim>\<open>session.request(..., allow_redirects=False, **kwargs)\<close> then has the keyword twice,
  the interpreter raises \<^verbatim>\<open>TypeError\<close>, and none of the three transports issues an HTTP
  call.
\<close>

lemma allow_redirects_option_raises:
  "send always_redirects (example_world, example_transport) example_request
     [''allow_redirects'' \<mapsto> PBool True] =
     (Inl (Uncaught (Exc TypeError [AVal (PStr ''got multiple values for keyword argument'')])),
      open_transport (example_world, example_transport)) \<and>
   calls (fst (snd (send always_redirects (example_world, example_transport) example_request
     [''allow_redirects'' \<mapsto> PBool True]))) = [] \<and>
   calls (fst (snd (send_asyncio True always_redirects (example_world, example_transport)
     example_request [''allow_redirects'' \<mapsto> PBool True]))) = [] \<and>
   calls (fst (snd (send_trio always_redirects (example_world, example_transport)
     example_request [''allow_redirects'' \<mapsto> PBool True]))) = []"
proof -
  obtain w t where op: "open_transport (example_world, example_transport) = (w, t)"
    by (cases "open_transport (example_world, example_transport)")
  then have t: "session t = Some 0" and w: "calls w = []"
    by (auto simp: open_transport_def new_session_def example_transport_def
        transport_init_def example_world_def split: if_splits)
  have k: "repeated_keyword [''allow_redirects'' \<mapsto> PBool True]"
    by (simp add: repeated_keyword_def keyword_names_def)
  show ?thesis
    by (simp add: send_unfold [OF op] send_asyncio_unfold [OF op] send_trio_unfold [OF op]
        t k w type_error_def op)
qed

text \<open>
  Claim C6. For every request and every set of keyword options, in each of the three
  transports: \<^verbatim>\<open>send\<close> issues at most one underlying HTTP call, and every call it issues
  has \<^verbatim>\<open>allow_redirects=False\<close>; whenever the call it issued returns a raw response,
  whatever its status (a 302 for one), \<^verbatim>\<open>send\<close> returns that response wrapped as it is,
  with its status code, headers and reason. The call is issued whenever the transport has
  a session or may open one and no option repeats a keyword argument that \<^verbatim>\<open>send\<close> writes
  out; with an option named \<^verbatim>\<open>allow_redirects\<close> no call is issued at all, so no option
  can make a call follow redirects.
\<close>

theorem send_never_follows_redirects:
  "(calls (fst (snd (send_variant v http wt req kw))) = calls (fst wt) \<or>
    (\<exists>c. calls (fst (snd (send_variant v http wt req kw))) = calls (fst wt) @ [c] \<and>
         \<not> call_allow_redirects c)) \<and>
   (\<forall>c raw. calls (fst (snd (send_variant v http wt req kw))) = calls (fst wt) @ [c] \<and>
            http c = Inr raw \<longrightarrow>
            (\<exists>r. fst (send_variant v http wt req kw) = Inr r \<and>
                 internal_response r = raw \<and>
                 status_code r = raw_status_code raw \<and>
                 headers r = raw_headers raw \<and>
                 reason r = raw_reason raw)) \<and>
   ((session (snd wt) \<noteq> None \<or> session_owner (snd wt)) \<and> \<not> repeated_keyword kw \<longrightarrow>
    (\<exists>c. calls (fst (snd (send_variant v http wt req kw))) = calls (fst wt) @ [c])) \<and>
   (kw ''allow_redirects'' \<noteq> None \<longrightarrow>
    calls (fst (snd (send_variant v http wt req kw))) = calls (fst wt))"
proof -
  obtain w0 t0 where wt: "wt = (w0, t0)"
    by (cases wt)
  obtain r w' t' where s: "send_variant v http (w0, t0) req kw = (r, w', t')"
    by (cases "send_variant v http (w0, t0) req kw")
  obtain w t where op: "open_transport (w0, t0) = (w, t)"
    by (cases "open_transport (w0, t0)")
  note o = send_variant_outcomes [OF s]
  have a: "calls w' = calls w0 \<or> (\<exists>c. calls w' = calls w0 @ [c] \<and> \<not> call_allow_redirects c)"
    using o by blast
  have b: "\<exists>r'. r = Inr r' \<and> internal_response r' = raw \<and>
        status_code r' = raw_status_code raw \<and> headers r' = raw_headers raw \<and>
        reason r' = raw_reason raw"
    if "calls w' = calls w0 @ [c]" and "http c = Inr raw" for c raw
    using o that by (auto simp: make_response_def)
  have c: "\<exists>c. calls w' = calls w0 @ [c]"
    if av: "session t0 \<noteq> None \<or> session_owner t0" and nk: "\<not> repeated_keyword kw"
  proof -
    from open_transport_available [OF av op] obtain a where a: "session t = Some a"
      by auto
    have "calls w' = calls w0 @ [built_call a t req kw]"
      using s a nk open_transport_calls [OF op]
      by (cases "http (built_call a t req kw)") (auto simp: send_variant_unfold [OF op])
    then show ?thesis by blast
  qed
  have d: "calls w' = calls w0" if "kw ''allow_redirects'' \<noteq> None"
  proof -
    from that have "repeated_keyword kw"
      by (simp add: repeated_keyword_def keyword_names_def)
    with o show ?thesis
      by auto
  qed
  from a b c d show ?thesis
    unfolding wt s by simp
qed

theorem send_never_follows_redirects_witness:
  "session_owner example_transport \<and> \<not> repeated_keyword Map.empty \<and>
   (\<exists>r. fst (send_variant Trio always_redirects (example_world, example_transport)
             example_request Map.empty) = Inr r \<and>
        status_code r = 302 \<and>
        headers r = [(''Location'', ''http://elsewhere/'')]) \<and>
   (\<exists>c. calls (fst (snd (send_variant Trio always_redirects (example_world, example_transport)
             example_request Map.empty))) = [c] \<and> \<not> call_allow_redirects c)"
proof -
  let ?R = "send_variant Trio always_redirects (example_world, example_transport)
              example_request Map.empty"
  have own: "session_owner example_transport"
    by (simp add: example_transport_def transport_init_def)
  have nk: "\<not> repeated_keyword Map.empty"
    by (simp add: repeated_keyword_def keyword_names_def)
  have e: "calls example_world = []"
    by (simp add: example_world_def)
  have r: "\<And>c. always_redirects c = Inr redirect_response"
    by (simp add: always_redirects_def)
  note t = send_never_follows_redirects [of Trio always_redirects
      "(example_world, example_transport)" example_request Map.empty]
  from t own nk e obtain c where c: "calls (fst (snd ?R)) = [c]"
    by auto
  with t e have nr: "\<not> call_allow_redirects c"
    by auto
  from t c e r [of c] obtain x where "fst ?R = Inr x"
    and "status_code x = raw_status_code redirect_response"
    and "headers x = raw_headers redirect_response"
    by auto
  with own nk c nr show ?thesis
    by (auto simp: redirect_response_def)
qed

section \<open>Streamed download\<close>


lemma transient_not_stop:
  "isinstance e ChunkedEncodingError \<or> isinstance e ConnectionError \<Longrightarrow>
   \<not> isinstance e StopIteration"
  by (cases "exc_cls e") (auto simp add: isinstance_def)

lemma gen_next_transient:
  assumes "iter_content_func g = Fails e # rest"
    and "isinstance e ChunkedEncodingError \<or> isinstance e ConnectionError"
  shows "gen_next pipeline g = retry_fetch pipeline e (g\<lparr> iter_content_func := rest \<rparr>)"
  using assms transient_not_stop [OF assms(2)]
  by (auto simp add: gen_next_def next_loop.simps [of pipeline True 3 g] try_pull_def)

lemma retry_fetch_int:
  "downloaded g = PInt n \<Longrightarrow>
   retry_fetch pipeline e g =
     (Inl (Uncaught unsupported_operands), g\<lparr> sleeps := sleeps g @ [1000] \<rparr>)"
  by (simp add: retry_fetch_def)

lemma gen_next_transient_int:
  assumes "iter_content_func g = Fails e # rest"
    and "isinstance e ChunkedEncodingError \<or> isinstance e ConnectionError"
    and "downloaded g = PInt n"
  shows "gen_next pipeline g =
     (Inl (Uncaught unsupported_operands),
      g\<lparr> iter_content_func := rest, sleeps := sleeps g @ [1000] \<rparr>)"
  using assms(3) by (simp add: gen_next_transient [OF assms(1,2)] retry_fetch_int [of _ n])

lemma gen_next_chunk:
  assumes "iter_content_func g = Chunk c # rest" and "c \<noteq> []" and "downloaded g = PInt n"
  shows "gen_next pipeline g =
     (Inr (PBytes c),
      g\<lparr> iter_content_func := rest, downloaded := PInt (n + gen_block_size g) \<rparr>)"
  using assms
  by (simp add: gen_next_def next_loop.simps [of pipeline True 3 g] try_pull_def)

lemma transient_connection_reset:
  "isinstance connection_reset ChunkedEncodingError \<or> isinstance connection_reset ConnectionError"
  by (simp add: connection_reset_def isinstance_def)

lemma retry_fetch_counter:
  "downloaded g = PInt n \<Longrightarrow> downloaded (snd (retry_fetch pipeline e g)) = PInt n"
  by (simp add: retry_fetch_int [of g n])

lemma gen_next_counter:
  assumes "downloaded g = PInt n"
  shows "\<exists>m. downloaded (snd (gen_next pipeline g)) = PInt m"
proof (cases "try_pull g")
  case (Pair r g1)
  show ?thesis
  proof (cases r)
    case (Inr chunk)
    with Pair assms have "\<exists>m. downloaded g1 = PInt m"
      by (auto simp add: try_pull_def Let_def split: prod.splits sum.splits if_splits)
    with Pair Inr show ?thesis
      by (simp add: gen_next_def next_loop.simps [of pipeline True 3 g])
  next
    case (Inl e)
    with Pair assms have d: "downloaded g1 = PInt n"
      by (auto simp add: try_pull_def Let_def split: prod.splits sum.splits if_splits)
    with Pair Inl show ?thesis
      by (simp add: gen_next_def next_loop.simps [of pipeline True 3 g] close_raw_def
          retry_fetch_counter)
  qed
qed

text \<open>
  The counter is an integer when \<^verbatim>\<open>__init__\<close> returns, and stays one through any number of
  calls of \<^verbatim>\<open>__next__\<close>, whatever they return or raise.
\<close>

lemma counter_is_always_an_integer:
  "downloaded g = PInt n \<Longrightarrow> \<exists>m. downloaded (snd (next_times pipeline k g)) = PInt m"
proof (induction k arbitrary: g n)
  case 0
  then show ?case by simp
next
  case (Suc k)
  from gen_next_counter [OF Suc.prems, of pipeline] obtain m
    where m: "downloaded (snd (gen_next pipeline g)) = PInt m"
    by blast
  from Suc.IH [OF m] show ?case
    by (simp add: split_beta)
qed

text \<open>
  Claim C2 asks that after three consecutive transient failures the original error is
  re-raised and the raw response closed once. What the code does there: on a generator
  whose counter is an integer and whose next three pulls each raise a transient error,
  each of three calls of \<^verbatim>\<open>__next__\<close> sleeps and then raises \<^verbatim>\<open>TypeError\<close> from
  \<^verbatim>\<open>'bytes=' + self.downloaded\<close>; nothing else changes, so the raw response is not closed,
  and none of the three errors raised is the transient error.
\<close>

theorem three_failures_raise_type_error:
  assumes counter: "downloaded g = PInt n"
    and pulls: "iter_content_func g = Fails e1 # Fails e2 # Fails e3 # rest"
    and t1: "isinstance e1 ChunkedEncodingError \<or> isinstance e1 ConnectionError"
    and t2: "isinstance e2 ChunkedEncodingError \<or> isinstance e2 ConnectionError"
    and t3: "isinstance e3 ChunkedEncodingError \<or> isinstance e3 ConnectionError"
  shows "next_times pipeline 3 g =
           ([Inl (Uncaught unsupported_operands), Inl (Uncaught unsupported_operands),
             Inl (Uncaught unsupported_operands)],
            g\<lparr> iter_content_func := rest, sleeps := sleeps g @ [1000, 1000, 1000] \<rparr>) \<and>
         raw_close_calls (snd (next_times pipeline 3 g)) = raw_close_calls g \<and>
         exc_cls unsupported_operands = TypeError \<and>
         \<not> isinstance unsupported_operands ChunkedEncodingError \<and>
         \<not> isinstance unsupported_operands ConnectionError"
proof -
  have "next_times pipeline (Suc (Suc (Suc 0))) g =
           ([Inl (Uncaught unsupported_operands), Inl (Uncaught unsupported_operands),
             Inl (Uncaught unsupported_operands)],
            g\<lparr> iter_content_func := rest, sleeps := sleeps g @ [1000, 1000, 1000] \<rparr>)"
    using counter pulls
    by (simp add: gen_next_transient_int [OF _ t1, of _ _ n]
        gen_next_transient_int [OF _ t2, of _ _ n] gen_next_transient_int [OF _ t3, of _ _ n])
  then show ?thesis
    by (simp add: numeral_3_eq_3 unsupported_operands_def isinstance_def)
qed

theorem three_failures_raise_type_error_witness:
  "downloaded (example_generator
     [Fails connection_reset, Fails connection_reset, Fails connection_reset]) = PInt 0 \<and>
   isinstance connection_reset ConnectionError \<and>
   next_times (pipeline_status 206) 3
     (example_generator [Fails connection_reset, Fails connection_reset, Fails connection_reset])
   = ([Inl (Uncaught unsupported_operands), Inl (Uncaught unsupported_operands),
       Inl (Uncaught unsupported_operands)],
      (example_generator []) \<lparr> sleeps := [1000, 1000, 1000] \<rparr>) \<and>
   raw_close_calls (snd (next_times (pipeline_status 206) 3
     (example_generator [Fails connection_reset, Fails connection_reset,
        Fails connection_reset]))) = 0 \<and>
   Uncaught unsupported_operands \<noteq> Uncaught connection_reset"
proof -
  let ?g = "example_generator
     [Fails connection_reset, Fails connection_reset, Fails connection_reset]"
  note t = transient_connection_reset
  have d: "downloaded ?g = PInt 0"
    and p: "iter_content_func ?g =
            Fails connection_reset # Fails connection_reset # Fails connection_reset # []"
    by (simp_all add: example_generator_def)
  have i: "isinstance connection_reset ConnectionError"
    by (simp add: connection_reset_def isinstance_def)
  have n: "Uncaught unsupported_operands \<noteq> Uncaught connection_reset"
    by (simp add: unsupported_operands_def connection_reset_def)
  from three_failures_raise_type_error [OF d p t t t, of "pipeline_status 206"] d i n
  show ?thesis
    by (simp add: example_generator_def)
qed

text \<open>
  Claim C3 asks that a transient failure with retries left reissues the request with a
  \<^verbatim>\<open>Range\<close> header and goes on yielding. What the code does there: on a generator whose
  counter is an integer, a pull that raises a transient error makes \<^verbatim>\<open>__next__\<close> sleep and
  raise \<^verbatim>\<open>TypeError\<close> while it builds the header; \<^verbatim>\<open>pipeline.run\<close> is not called, the
  iterator is not pulled again, and the call returns no chunk.
\<close>

theorem no_ranged_request_reissued:
  assumes counter: "downloaded g = PInt n"
    and pull: "iter_content_func g = Fails e # rest"
    and transient: "isinstance e ChunkedEncodingError \<or> isinstance e ConnectionError"
  shows "gen_next pipeline g =
           (Inl (Uncaught unsupported_operands),
            g\<lparr> iter_content_func := rest, sleeps := sleeps g @ [1000] \<rparr>) \<and>
         pipeline_runs (snd (gen_next pipeline g)) = pipeline_runs g \<and>
         exc_cls unsupported_operands = TypeError"
  by (simp add: gen_next_transient_int [OF pull transient counter] unsupported_operands_def)

theorem no_ranged_request_reissued_witness:
  "next_times (pipeline_status 206) 2
     (example_generator [Chunk ''abcd'', Fails connection_reset, Chunk ''efgh''])
   = ([Inr (PBytes ''abcd''), Inl (Uncaught unsupported_operands)],
      (example_generator [Chunk ''efgh''])
        \<lparr> downloaded := PInt 4, sleeps := [1000] \<rparr>) \<and>
   pipeline_runs (snd (next_times (pipeline_status 206) 2
     (example_generator [Chunk ''abcd'', Fails connection_reset, Chunk ''efgh'']))) = [] \<and>
   isinstance connection_reset ConnectionError"
proof -
  let ?g1 = "(example_generator [Fails connection_reset, Chunk ''efgh''])
               \<lparr> downloaded := PInt 4 \<rparr>"
  have first: "gen_next (pipeline_status 206)
      (example_generator [Chunk ''abcd'', Fails connection_reset, Chunk ''efgh'']) =
      (Inr (PBytes ''abcd''), ?g1)"
    by (simp add: gen_next_chunk [of _ _ _ 0] example_generator_def)
  have d: "downloaded ?g1 = PInt 4"
    and p: "iter_content_func ?g1 = Fails connection_reset # [Chunk ''efgh'']"
    by (simp_all add: example_generator_def)
  have i: "isinstance connection_reset ConnectionError"
    by (simp add: connection_reset_def isinstance_def)
  from no_ranged_request_reissued [OF d p transient_connection_reset, of "pipeline_status 206"]
  have second: "gen_next (pipeline_status 206) ?g1 =
      (Inl (Uncaught unsupported_operands),
       ?g1\<lparr> iter_content_func := [Chunk ''efgh''], sleeps := sleeps ?g1 @ [1000] \<rparr>)"
    by blast
  have "next_times (pipeline_status 206) (Suc (Suc 0))
     (example_generator [Chunk ''abcd'', Fails connection_reset, Chunk ''efgh''])
   = ([Inr (PBytes ''abcd''), Inl (Uncaught unsupported_operands)],
      (example_generator [Chunk ''efgh''])
        \<lparr> downloaded := PInt 4, sleeps := [1000] \<rparr>)"
    by (simp add: first second) (simp add: example_generator_def)
  then show ?thesis
    using i by (simp add: numeral_2_eq_2 example_generator_def)
qed

text \<open>
  Claim C4 asks that the counter equal the number of bytes returned so far. What the code
  does: a call of \<^verbatim>\<open>__next__\<close> that returns a chunk adds the block size to the counter,
  whatever the length of the chunk.
\<close>

theorem counter_counts_block_sizes:
  assumes "iter_content_func g = Chunk c # rest" and "c \<noteq> []" and "downloaded g = PInt n"
  shows "gen_next pipeline g =
     (Inr (PBytes c),
      g\<lparr> iter_content_func := rest, downloaded := PInt (n + gen_block_size g) \<rparr>)"
  by (rule gen_next_chunk [OF assms])

theorem counter_counts_block_sizes_witness:
  "next_times (pipeline_status 206) 2 (example_generator [Chunk ''abcd'', Chunk ''e''])
   = ([Inr (PBytes ''abcd''), Inr (PBytes ''e'')],
      (example_generator []) \<lparr> downloaded := PInt 8 \<rparr>) \<and>
   int (length (emitted [Inr (PBytes ''abcd''), Inr (PBytes ''e'')])) = 5"
proof -
  let ?g0 = "example_generator [Chunk ''abcd'', Chunk ''e'']"
  let ?g1 = "(example_generator [Chunk ''e'']) \<lparr> downloaded := PInt 4 \<rparr>"
  have p0: "iter_content_func ?g0 = Chunk ''abcd'' # [Chunk ''e'']"
    and d0: "downloaded ?g0 = PInt 0"
    and p1: "iter_content_func ?g1 = Chunk ''e'' # []"
    and d1: "downloaded ?g1 = PInt 4"
    by (simp_all add: example_generator_def)
  have c0: "''abcd'' \<noteq> []" and c1: "''e'' \<noteq> []"
    by simp_all
  from counter_counts_block_sizes [OF p0 c0 d0, of "pipeline_status 206"]
  have first: "gen_next (pipeline_status 206) ?g0 = (Inr (PBytes ''abcd''), ?g1)"
    by (simp add: example_generator_def)
  from counter_counts_block_sizes [OF p1 c1 d1, of "pipeline_status 206"]
  have second: "gen_next (pipeline_status 206) ?g1 =
      (Inr (PBytes ''e''), (example_generator []) \<lparr> downloaded := PInt 8 \<rparr>)"
    by (simp add: example_generator_def)
  have "next_times (pipeline_status 206) (Suc (Suc 0)) ?g0
   = ([Inr (PBytes ''abcd''), Inr (PBytes ''e'')],
      (example_generator []) \<lparr> downloaded := PInt 8 \<rparr>)"
    by (simp add: first second)
  then show ?thesis
    by (simp add: numeral_2_eq_2)
qed






end
